theory Spec2Isabelle
  imports Complex_Main
begin

section \<open>Tier routing (config/settings.py, core/tiered\_processor.py)\<close>

text \<open>
  Python floats are read as reals: every comparison below is against a finite constant,
  where the two agree. Tiers and failure types are the strings of the source. A leading
  underscore of a Python name is dropped, since an Isabelle name cannot start with one.
\<close>

record Settings =
  SMALL_FILE_THRESHOLD :: real
  MEDIUM_FILE_THRESHOLD :: real
  LARGE_FILE_THRESHOLD :: real
  TIMEOUT_STANDARD :: int
  TIMEOUT_LIMITED :: int
  TIMEOUT_MINIMAL :: int

text \<open>The values the fields take when the environment sets none of them.\<close>

definition settings :: Settings where
  "settings = \<lparr> SMALL_FILE_THRESHOLD = 10, MEDIUM_FILE_THRESHOLD = 50,
      LARGE_FILE_THRESHOLD = 100, TIMEOUT_STANDARD = 300, TIMEOUT_LIMITED = 120,
      TIMEOUT_MINIMAL = 60 \<rparr>"

text \<open>\<^verbatim>\<open>Settings.__post_init__\<close>: the threshold check (the two required strings are not modelled).\<close>

definition thresholds_valid :: "Settings \<Rightarrow> bool" where
  "thresholds_valid s \<longleftrightarrow>
     0 < SMALL_FILE_THRESHOLD s \<and> SMALL_FILE_THRESHOLD s < MEDIUM_FILE_THRESHOLD s
     \<and> MEDIUM_FILE_THRESHOLD s < LARGE_FILE_THRESHOLD s"

text \<open>\<^verbatim>\<open>Settings.get_timeout_for_tier\<close>: a dict lookup with \<^verbatim>\<open>TIMEOUT_STANDARD\<close> as default.\<close>

definition get_timeout_for_tier :: "Settings \<Rightarrow> string \<Rightarrow> int" where
  "get_timeout_for_tier s tier =
     (if tier = ''standard'' then TIMEOUT_STANDARD s
      else if tier = ''limited'' then TIMEOUT_LIMITED s
      else if tier = ''minimal'' then TIMEOUT_MINIMAL s
      else if tier = ''dead_letter'' then 0
      else TIMEOUT_STANDARD s)"

text \<open>\<^verbatim>\<open>Settings.determine_processing_tier\<close>\<close>

definition Settings_determine_processing_tier :: "Settings \<Rightarrow> real \<Rightarrow> string" where
  "Settings_determine_processing_tier s file_size_mb =
     (if file_size_mb > LARGE_FILE_THRESHOLD s then ''dead_letter''
      else if file_size_mb > MEDIUM_FILE_THRESHOLD s then ''minimal''
      else if file_size_mb > SMALL_FILE_THRESHOLD s then ''limited''
      else ''standard'')"

text \<open>\<^verbatim>\<open>TieredProcessor._determine_processing_tier\<close>, which reads the global \<^verbatim>\<open>settings\<close>.\<close>

definition determine_processing_tier :: "real \<Rightarrow> string" where
  "determine_processing_tier file_size_mb =
     (if file_size_mb > LARGE_FILE_THRESHOLD settings then ''dead_letter''
      else if file_size_mb > MEDIUM_FILE_THRESHOLD settings then ''minimal''
      else if file_size_mb > SMALL_FILE_THRESHOLD settings then ''limited''
      else ''standard'')"

section \<open>Dead-letter queue scoring (storage/dead\_letter\_queue.py)\<close>

text \<open>\<^verbatim>\<open>DeadLetterQueueManager._calculate_retry_eligibility\<close>\<close>

definition calculate_retry_eligibility :: "int \<Rightarrow> real \<Rightarrow> string \<Rightarrow> bool" where
  "calculate_retry_eligibility attempt_count file_size_mb failure_type =
     (if attempt_count \<ge> 5 then False
      else if file_size_mb > 100 then False
      else if file_size_mb > 50 \<and> attempt_count \<ge> 2 then False
      else if failure_type = ''memory'' \<and> file_size_mb > 25 then False
      else if failure_type = ''parsing'' \<and> attempt_count \<ge> 3 then False
      else True)"

text \<open>
  \<^verbatim>\<open>DeadLetterQueueManager._calculate_backoff_hours\<close>:
  \<^verbatim>\<open>min(24 * (2 ** (attempt_count - 1)), 192)\<close>. Python gives an int for
  \<open>attempt_count \<ge> 1\<close> and, a negative exponent being a float power, the float
  \<open>24 \<sqdot> 2\<^sup>n\<^sup>-\<^sup>1\<close> below that; both are read as reals, \<open>powi\<close> being the power with an
  integer exponent.
\<close>

definition calculate_backoff_hours :: "int \<Rightarrow> real" where
  "calculate_backoff_hours attempt_count = min (24 * (2 powi (attempt_count - 1))) 192"

text \<open>\<^verbatim>\<open>DeadLetterQueueManager._suggest_tier\<close>\<close>

definition suggest_tier :: "int \<Rightarrow> real \<Rightarrow> string \<Rightarrow> string" where
  "suggest_tier attempt_count file_size_mb failure_type =
     (if failure_type = ''memory'' \<or> file_size_mb > 30 then ''minimal''
      else if attempt_count \<ge> 2 \<or> file_size_mb > 15 then ''limited''
      else ''standard'')"

text \<open>
  \<^verbatim>\<open>DeadLetterQueueManager._calculate_priority\<close>, written as the three assignments of the
  source: the base, the size step and the failure-type step, then the clamp.
\<close>

definition calculate_priority :: "real \<Rightarrow> string \<Rightarrow> int" where
  "calculate_priority file_size_mb failure_type =
     (let priority = 1;
          priority = (if file_size_mb < 5 then priority + 2
                      else if file_size_mb < 15 then priority + 1
                      else priority);
          priority = (if failure_type \<in> set [''network'', ''temporary''] then priority + 1
                      else if failure_type \<in> set [''memory'', ''timeout''] then priority - 1
                      else priority)
      in max 1 (min 5 priority))"

text \<open>
  The priority as the specification words it: a size bonus (the first bracket that
  applies), a failure-type adjustment, and a clamp to 1..5.
\<close>

definition size_bonus :: "real \<Rightarrow> int" where
  "size_bonus file_size_mb = (if file_size_mb < 5 then 2 else if file_size_mb < 15 then 1 else 0)"

definition failure_adjustment :: "string \<Rightarrow> int" where
  "failure_adjustment failure_type =
     (if failure_type = ''network'' \<or> failure_type = ''temporary'' then 1
      else if failure_type = ''memory'' \<or> failure_type = ''timeout'' then - 1
      else 0)"

definition priority_spec :: "real \<Rightarrow> string \<Rightarrow> int" where
  "priority_spec file_size_mb failure_type =
     max 1 (min 5 (1 + size_bonus file_size_mb + failure_adjustment failure_type))"

section \<open>Exceptions\<close>

text \<open>
  The exceptions that the modelled code raises or meets, each with its message (written
  without the quotation marks of the Python text). \<open>TimeoutError\<close> is the class of
  core/timeout\_manager.py, and \<open>SQLAlchemyError\<close> stands for its subclasses too. All
  derive from
  \<^verbatim>\<open>Exception\<close> but the last two, which derive from \<^verbatim>\<open>BaseException\<close> only, so that
  \<^verbatim>\<open>except Exception\<close> lets them pass.
\<close>

datatype pyexc =
    ParseError string
  | ValueError string
  | TypeError string
  | AttributeError string
  | MemoryError string
  | TimeoutError string
  | SQLAlchemyError string
  | OverflowError string
  | OtherException string
  | KeyboardInterrupt
  | SystemExit

fun is_Exception :: "pyexc \<Rightarrow> bool" where
  "is_Exception KeyboardInterrupt = False"
| "is_Exception SystemExit = False"
| "is_Exception e = True"

text \<open>\<^verbatim>\<open>str(e)\<close>\<close>

fun str_exc :: "pyexc \<Rightarrow> string" where
  "str_exc (ParseError m) = m"
| "str_exc (ValueError m) = m"
| "str_exc (TypeError m) = m"
| "str_exc (AttributeError m) = m"
| "str_exc (MemoryError m) = m"
| "str_exc (TimeoutError m) = m"
| "str_exc (SQLAlchemyError m) = m"
| "str_exc (OverflowError m) = m"
| "str_exc (OtherException m) = m"
| "str_exc KeyboardInterrupt = []"
| "str_exc SystemExit = []"

text \<open>
  A computation that may raise is a value of \<open>pyexc + 'a\<close>. \<open>then_exc\<close> runs the next
  statement unless the first raised; \<open>except_Exception\<close> is
  \<^verbatim>\<open>try: ... except Exception as e: ...\<close>.
\<close>

definition then_exc :: "pyexc + 'a \<Rightarrow> ('a \<Rightarrow> pyexc + 'b) \<Rightarrow> pyexc + 'b" where
  "then_exc m f = (case m of Inl e \<Rightarrow> Inl e | Inr v \<Rightarrow> f v)"

definition except_Exception :: "pyexc + 'a \<Rightarrow> (pyexc \<Rightarrow> pyexc + 'a) \<Rightarrow> pyexc + 'a" where
  "except_Exception body handler =
     (case body of
        Inl e \<Rightarrow> if is_Exception e then handler e else Inl e
      | Inr v \<Rightarrow> Inr v)"

section \<open>The mapped classes (storage/models.py)\<close>

text \<open>
  A \<^verbatim>\<open>datetime\<close> is the number of seconds since the epoch and \<^verbatim>\<open>timedelta(hours=h)\<close> is
  \<open>3600 \<sqdot> h\<close> seconds. A free-form dict is an association list.
\<close>

type_synonym datetime = real

type_synonym pydict = "(string \<times> string) list"

definition timedelta_hours :: "real \<Rightarrow> real" where
  "timedelta_hours h = 3600 * h"

text \<open>
  The attributes that storage/models.py declares on each mapped class: its columns and
  its relationships. The key of \<^verbatim>\<open>Filing\<close> is \<^verbatim>\<open>filing_id\<close>; the class has no \<^verbatim>\<open>id\<close> and
  no \<^verbatim>\<open>filing_date\<close>. \<^verbatim>\<open>DeadLetterQueue\<close> has no \<^verbatim>\<open>retry_after_hours\<close>,
  \<^verbatim>\<open>original_error_details\<close> or \<^verbatim>\<open>system_metrics\<close>, and \<^verbatim>\<open>ProcessingResult\<close> has no
  \<^verbatim>\<open>tables_extracted\<close>, \<^verbatim>\<open>sections_found\<close> or \<^verbatim>\<open>result_data\<close>.
\<close>

definition Filing_attributes :: "string list" where
  "Filing_attributes =
     [''filing_id'', ''accession_number'', ''cik'', ''company_name'', ''form_type'',
      ''filed_at'', ''period_of_report'', ''acceptance_datetime'', ''sic'',
      ''state_of_incorporation'', ''fiscal_year_end'', ''business_address'',
      ''business_phone'', ''sgml_parsing_time'', ''xbrl_parsing_time'',
      ''integrated_parsing_time'', ''xbrl_facts_count'', ''sgml_parsed'', ''xbrl_parsed'',
      ''parsing_strategy'', ''filing_url'', ''filing_html_url'', ''file_size_mb'',
      ''processing_status'', ''processing_tier'', ''created_at'', ''updated_at'',
      ''documents'', ''fund_metadata'', ''sections'', ''tables'', ''xbrl_data'',
      ''xbrl_facts'', ''processing_logs'', ''dead_letter_entry'', ''processing_result'']"

definition DeadLetterQueue_attributes :: "string list" where
  "DeadLetterQueue_attributes =
     [''id'', ''filing_id'', ''failure_reason'', ''failure_type'', ''original_tier'',
      ''file_size_mb'', ''attempt_count'', ''max_attempts'', ''retry_eligible'',
      ''last_attempt'', ''next_retry'', ''suggested_tier'', ''priority'', ''created_at'',
      ''updated_at'', ''filing'']"

definition FundMetadata_attributes :: "string list" where
  "FundMetadata_attributes =
     [''id'', ''filing_id'', ''fund_name'', ''total_net_assets'', ''shares_outstanding'',
      ''nav_per_share'', ''expense_ratio'', ''portfolio_date'', ''raw_data'', ''filing'']"

definition NcsrSection_attributes :: "string list" where
  "NcsrSection_attributes =
     [''id'', ''filing_id'', ''section_name'', ''section_type'', ''text_clean'',
      ''word_count'', ''filing'']"

definition NcsrTable_attributes :: "string list" where
  "NcsrTable_attributes =
     [''id'', ''filing_id'', ''table_type'', ''caption'', ''table_html'', ''row_count'',
      ''column_count'', ''filing'', ''rows'']"

definition NcsrTableRow_attributes :: "string list" where
  "NcsrTableRow_attributes =
     [''id'', ''table_id'', ''row_index'', ''col_name'', ''col_value'', ''col_type'',
      ''table'']"

definition ProcessingResult_attributes :: "string list" where
  "ProcessingResult_attributes =
     [''id'', ''filing_id'', ''processing_tier'', ''success'', ''error_message'',
      ''table_count'', ''section_count'', ''processing_duration'', ''created_at'',
      ''filing'']"

text \<open>
  The constructor of a mapped class takes keywords only, and raises \<^verbatim>\<open>TypeError\<close> for
  the first keyword that is not an attribute of the class.
\<close>

definition check_keywords :: "string \<Rightarrow> string list \<Rightarrow> string list \<Rightarrow> pyexc + unit" where
  "check_keywords class_name attributes keywords =
     (case find (\<lambda>k. k \<notin> set attributes) keywords of
        Some k \<Rightarrow> Inl (TypeError (k @ '' is an invalid keyword argument for '' @ class_name))
      | None \<Rightarrow> Inr ())"

text \<open>
  The rows, with the columns that the modelled operations touch. Field names are prefixed
  (\<open>dlq_\<close>, \<open>f_\<close>, ...) so that they stay apart from the parameters of the functions.
\<close>

record Filing =
  f_filing_id :: int
  f_accession_number :: string
  f_cik :: "string option"
  f_company_name :: "string option"
  f_file_size_mb :: real
  f_processing_status :: string
  f_processing_tier :: "string option"
  f_created_at :: datetime
  f_updated_at :: datetime

record DLQModel =
  dlq_filing_id :: "int option"
  dlq_failure_reason :: string
  dlq_failure_type :: string
  dlq_original_tier :: "string option"
  dlq_file_size_mb :: real
  dlq_attempt_count :: int
  dlq_max_attempts :: int
  dlq_retry_eligible :: bool
  dlq_last_attempt :: datetime
  dlq_next_retry :: "datetime option"
  dlq_suggested_tier :: "string option"
  dlq_priority :: int
  dlq_created_at :: datetime
  dlq_updated_at :: datetime

record FundMetadata =
  fm_filing_id :: int
  fm_fund_name :: "string option"
  fm_total_net_assets :: "string option"
  fm_raw_data :: pydict

record NcsrSection =
  sec_filing_id :: int
  sec_data :: pydict

record NcsrTable =
  tbl_id :: int
  tbl_filing_id :: int
  tbl_data :: pydict

record NcsrTableRow =
  row_table_id :: int
  row_data :: pydict

record XbrlFact =
  fact_filing_id :: int
  fact_concept :: string
  fact_value :: string

record ProcessingResult =
  pr_filing_id :: int
  pr_processing_tier :: string
  pr_success :: bool
  pr_processing_duration :: real
  pr_created_at :: datetime

text \<open>
  \<^verbatim>\<open>Filing.name\<close> and \<^verbatim>\<open>filing.name\<close> for an integer attribute: the column of that name,
  or nothing when the class has none, in which case reading it raises
  \<^verbatim>\<open>AttributeError\<close> and \<^verbatim>\<open>filter_by(name=...)\<close> raises \<^verbatim>\<open>InvalidRequestError\<close>, a
  \<^verbatim>\<open>SQLAlchemyError\<close>. Of the integer columns only the key is modelled.
\<close>

definition Filing_int_attribute :: "string \<Rightarrow> (Filing \<Rightarrow> int) option" where
  "Filing_int_attribute name = (if name = ''filing_id'' then Some f_filing_id else None)"

section \<open>The database and its sessions (storage/database.py)\<close>

text \<open>
  The database: one list per table, in insertion order, and the two sequences that
  hand out the ids of new filings and new tables.
\<close>

record database =
  filings :: "Filing list"
  dead_letter_queue :: "DLQModel list"
  fund_metadata :: "FundMetadata list"
  ncsr_sections :: "NcsrSection list"
  ncsr_tables :: "NcsrTable list"
  ncsr_table_rows :: "NcsrTableRow list"
  xbrl_facts :: "XbrlFact list"
  processing_results :: "ProcessingResult list"
  filing_seq :: int
  table_seq :: int

text \<open>
  What a call reads from outside the program: the clock (the \<^verbatim>\<open>utcnow()\<close> readings of one
  call are taken as one instant), the \<^verbatim>\<open>psutil\<close> reading of
  \<^verbatim>\<open>_capture_system_metrics\<close>, and whether the database accepts the writes of the call
  (otherwise the flush or the commit raises \<^verbatim>\<open>SQLAlchemyError\<close>).
\<close>

record environment =
  utcnow :: datetime
  capture_system_metrics :: pydict
  db_commits :: bool

text \<open>
  A session works on its own copy of the data. \<^verbatim>\<open>commit\<close> makes the copy the database,
  \<^verbatim>\<open>rollback\<close> throws it away, and \<^verbatim>\<open>close\<close> (also the exit of
  \<^verbatim>\<open>with ... as session\<close>) ends the session without committing: what was not committed
  is lost.
\<close>

record session =
  committed :: database
  working :: database

definition get_session :: "database \<Rightarrow> session" where
  "get_session db = \<lparr> committed = db, working = db \<rparr>"

definition commit :: "session \<Rightarrow> session" where
  "commit s = s\<lparr> committed := working s \<rparr>"

definition rollback :: "session \<Rightarrow> session" where
  "rollback s = s\<lparr> working := committed s \<rparr>"

definition close :: "session \<Rightarrow> database" where
  "close s = committed s"

text \<open>
  \<^verbatim>\<open>query(...).filter_by(...).first()\<close> is \<^const>\<open>find\<close>; assigning to the mapped
  attributes of the object it returned changes that row, and \<^verbatim>\<open>session.delete\<close> removes
  it. Assigning to a name that is not a mapped attribute only sets a plain attribute of
  the Python object and never reaches the row.
\<close>

fun update_first :: "('a \<Rightarrow> bool) \<Rightarrow> ('a \<Rightarrow> 'a) \<Rightarrow> 'a list \<Rightarrow> 'a list" where
  "update_first P f [] = []"
| "update_first P f (x # xs) = (if P x then f x # xs else x # update_first P f xs)"

fun delete_first :: "('a \<Rightarrow> bool) \<Rightarrow> 'a list \<Rightarrow> 'a list" where
  "delete_first P [] = []"
| "delete_first P (x # xs) = (if P x then xs else x # delete_first P xs)"

text \<open>Python truthiness of an optional string: \<^verbatim>\<open>None\<close> and \<^verbatim>\<open>''\<close> are false.\<close>

fun truthy :: "string option \<Rightarrow> bool" where
  "truthy None = False"
| "truthy (Some s) = (s \<noteq> [])"

section \<open>The dead-letter queue manager (storage/dead\_letter\_queue.py)\<close>

text \<open>
  The branch of \<^verbatim>\<open>add_filing\<close> that updates the row found for the filing. Its
  assignments to \<^verbatim>\<open>retry_after_hours\<close>, \<^verbatim>\<open>original_error_details\<close> and
  \<^verbatim>\<open>system_metrics\<close> are to names that \<^verbatim>\<open>DeadLetterQueue\<close> does not map, so they do not
  change the row.
\<close>

definition update_existing :: "environment \<Rightarrow> string \<Rightarrow> real \<Rightarrow> string \<Rightarrow> DLQModel \<Rightarrow> DLQModel" where
  "update_existing env error file_size_mb failure_type existing =
     (let existing = existing\<lparr> dlq_attempt_count := dlq_attempt_count existing + 1 \<rparr>;
          existing = existing\<lparr> dlq_last_attempt := utcnow env,
                       dlq_failure_reason := error,
                       dlq_failure_type := failure_type,
                       dlq_file_size_mb := file_size_mb \<rparr>;
          existing = existing\<lparr> dlq_retry_eligible :=
                       calculate_retry_eligibility (dlq_attempt_count existing)
                         file_size_mb failure_type \<rparr>;
          existing =
            (if dlq_retry_eligible existing then
               (let backoff_hours = calculate_backoff_hours (dlq_attempt_count existing)
                in existing\<lparr> dlq_next_retry := Some (utcnow env + timedelta_hours backoff_hours),
                     dlq_suggested_tier :=
                       Some (suggest_tier (dlq_attempt_count existing) file_size_mb failure_type) \<rparr>)
             else existing\<lparr> dlq_next_retry := None, dlq_suggested_tier := None \<rparr>)
      in existing\<lparr> dlq_updated_at := utcnow env \<rparr>)"

text \<open>
  The branch that creates a row: the constructor call \<^verbatim>\<open>DLQModel(...)\<close> with its thirteen
  keywords, in the order of the source. When the class accepts them all, the row gets the
  values of its columns, and \<open>max_attempts\<close>, \<open>last_attempt\<close>, \<open>created_at\<close> and
  \<open>updated_at\<close> get their column defaults.
\<close>

definition new_entry ::
  "environment \<Rightarrow> int option \<Rightarrow> string \<Rightarrow> real \<Rightarrow> string \<Rightarrow> string option \<Rightarrow> pyexc + DLQModel" where
  "new_entry env filing_id error file_size_mb failure_type original_tier =
     (let retry_eligible = calculate_retry_eligibility 1 file_size_mb failure_type
      in then_exc
           (check_keywords ''DeadLetterQueue'' DeadLetterQueue_attributes
              [''filing_id'', ''failure_reason'', ''failure_type'', ''original_tier'',
               ''file_size_mb'', ''attempt_count'', ''retry_eligible'', ''next_retry'',
               ''retry_after_hours'', ''suggested_tier'', ''priority'',
               ''original_error_details'', ''system_metrics''])
           (\<lambda>u. Inr \<lparr> dlq_filing_id = filing_id,
                       dlq_failure_reason = error,
                       dlq_failure_type = failure_type,
                       dlq_original_tier = original_tier,
                       dlq_file_size_mb = file_size_mb,
                       dlq_attempt_count = 1,
                       dlq_max_attempts = 5,
                       dlq_retry_eligible = retry_eligible,
                       dlq_last_attempt = utcnow env,
                       dlq_next_retry =
                         (if retry_eligible then Some (utcnow env + timedelta_hours 24)
                          else None),
                       dlq_suggested_tier =
                         (if retry_eligible
                          then Some (suggest_tier 1 file_size_mb failure_type) else None),
                       dlq_priority = calculate_priority file_size_mb failure_type,
                       dlq_created_at = utcnow env,
                       dlq_updated_at = utcnow env \<rparr>))"

text \<open>
  The \<^verbatim>\<open>try\<close> block of \<^verbatim>\<open>add_filing\<close> up to its \<^verbatim>\<open>commit\<close>, on the data of the session:
  the row is updated or created, then the filing is looked up with
  \<^verbatim>\<open>session.query(Filing).filter_by(id=filing_id)\<close> and marked.
\<close>

definition add_filing_try ::
  "environment \<Rightarrow> int option \<Rightarrow> string \<Rightarrow> real \<Rightarrow> string \<Rightarrow> string option
     \<Rightarrow> string option \<Rightarrow> database \<Rightarrow> pyexc + database" where
  "add_filing_try env filing_id error file_size_mb failure_type original_tier error_details w =
     then_exc
       (case find (\<lambda>r. dlq_filing_id r = filing_id) (dead_letter_queue w) of
          Some existing \<Rightarrow>
            Inr (w\<lparr> dead_letter_queue :=
                     update_first (\<lambda>r. dlq_filing_id r = filing_id)
                       (update_existing env error file_size_mb failure_type)
                       (dead_letter_queue w) \<rparr>)
        | None \<Rightarrow>
            then_exc (new_entry env filing_id error file_size_mb failure_type original_tier)
              (\<lambda>dlq_entry. Inr (w\<lparr> dead_letter_queue := dead_letter_queue w @ [dlq_entry] \<rparr>)))
       (\<lambda>w. case Filing_int_attribute ''id'' of
               None \<Rightarrow> Inl (SQLAlchemyError ''Entity namespace for filings has no property id'')
             | Some key \<Rightarrow>
                 Inr (w\<lparr> filings :=
                          update_first (\<lambda>f. Some (key f) = filing_id)
                            (\<lambda>filing. filing\<lparr> f_processing_status := ''dead_letter'',
                                              f_updated_at := utcnow env \<rparr>)
                            (filings w) \<rparr>))"

text \<open>
  \<^verbatim>\<open>DeadLetterQueueManager.add_filing\<close>: the block above, then \<^verbatim>\<open>session.commit()\<close> and
  \<^verbatim>\<open>True\<close>; on an exception (those of the block all derive from \<^verbatim>\<open>Exception\<close>)
  \<^verbatim>\<open>session.rollback()\<close> and \<^verbatim>\<open>False\<close>; the session is closed on both ways out. The
  \<^verbatim>\<open>error_details\<close> only ever reach the unmapped name \<^verbatim>\<open>original_error_details\<close>.
\<close>

definition add_filing ::
  "environment \<Rightarrow> database \<Rightarrow> int option \<Rightarrow> string \<Rightarrow> real \<Rightarrow> string \<Rightarrow> string option
     \<Rightarrow> string option \<Rightarrow> bool \<times> database" where
  "add_filing env db filing_id error file_size_mb failure_type original_tier error_details =
     (let session = get_session db
      in case add_filing_try env filing_id error file_size_mb failure_type original_tier
                error_details (working session) of
           Inr w \<Rightarrow>
             (let session = session\<lparr> working := w \<rparr>
              in if db_commits env then (True, close (commit session))
                 else (False, close (rollback session)))
         | Inl e \<Rightarrow> (False, close (rollback session)))"

text \<open>
  \<^verbatim>\<open>DeadLetterQueueManager.mark_as_processed\<close>: the session is opened by
  \<^verbatim>\<open>with self.db.get_session() as session\<close> and the body never calls \<^verbatim>\<open>commit\<close>.
\<close>

definition failed_retry :: "environment \<Rightarrow> DLQModel \<Rightarrow> DLQModel" where
  "failed_retry env dlq_entry =
     (let dlq_entry = dlq_entry\<lparr> dlq_attempt_count := dlq_attempt_count dlq_entry + 1 \<rparr>;
          dlq_entry = dlq_entry\<lparr> dlq_last_attempt := utcnow env \<rparr>;
          dlq_entry = dlq_entry\<lparr> dlq_retry_eligible :=
                        calculate_retry_eligibility (dlq_attempt_count dlq_entry)
                          (dlq_file_size_mb dlq_entry) (dlq_failure_type dlq_entry) \<rparr>;
          dlq_entry =
            (if dlq_retry_eligible dlq_entry then
               dlq_entry\<lparr> dlq_next_retry :=
                 Some (utcnow env
                       + timedelta_hours (calculate_backoff_hours (dlq_attempt_count dlq_entry))) \<rparr>
             else dlq_entry\<lparr> dlq_next_retry := None \<rparr>)
      in dlq_entry\<lparr> dlq_updated_at := utcnow env \<rparr>)"

definition mark_as_processed_body ::
  "environment \<Rightarrow> int option \<Rightarrow> bool \<Rightarrow> database \<Rightarrow> database" where
  "mark_as_processed_body env filing_id success w =
     (case find (\<lambda>r. dlq_filing_id r = filing_id) (dead_letter_queue w) of
        Some dlq_entry \<Rightarrow>
          (if success then
             w\<lparr> dead_letter_queue :=
                  delete_first (\<lambda>r. dlq_filing_id r = filing_id) (dead_letter_queue w) \<rparr>
           else
             w\<lparr> dead_letter_queue :=
                  update_first (\<lambda>r. dlq_filing_id r = filing_id) (failed_retry env)
                    (dead_letter_queue w) \<rparr>)
      | None \<Rightarrow> w)"

definition mark_as_processed ::
  "environment \<Rightarrow> database \<Rightarrow> int option \<Rightarrow> bool \<Rightarrow> bool \<times> database" where
  "mark_as_processed env db filing_id success =
     (let session = get_session db;
          session = session\<lparr> working :=
                      mark_as_processed_body env filing_id success (working session) \<rparr>
      in (True, close session))"

section \<open>Saving a processing result (storage/database.py)\<close>

text \<open>
  The result dict of a run, as a record of its keys; \<open>None\<close> is a key that is absent.
  A table dict is split into its \<^verbatim>\<open>rows\<close> entry, which \<^verbatim>\<open>save_processing_result\<close> pops,
  and the rest, which becomes the keywords of the table's constructor.
\<close>

record table_data =
  td_columns :: pydict
  td_rows :: "pydict list"

record result =
  r_success :: "bool option"
  r_error :: "string option"
  r_error_type :: "string option"
  r_filing_id :: "int option"
  r_processing_tier :: "string option"
  r_processing_duration :: "real option"
  r_extraction_method :: "string option"
  r_fund_metadata :: "pydict option"
  r_sections :: "pydict list option"
  r_tables :: "table_data list option"
  r_table_count :: "int option"
  r_section_count :: "int option"
  r_xbrl_facts_count :: "int option"

text \<open>\<^verbatim>\<open>d.get(key, default)\<close>\<close>

fun get_default :: "'a option \<Rightarrow> 'a \<Rightarrow> 'a" where
  "get_default None d = d"
| "get_default (Some v) d = v"

text \<open>The loop over \<^verbatim>\<open>result.get("sections", [])\<close>: \<^verbatim>\<open>NcsrSection(filing_id=..., **sec_data)\<close>.\<close>

fun save_sections :: "int \<Rightarrow> pydict list \<Rightarrow> database \<Rightarrow> pyexc + database" where
  "save_sections filing_id [] w = Inr w"
| "save_sections filing_id (section_dict # rest) w =
     then_exc
       (check_keywords ''NcsrSection'' NcsrSection_attributes
          (''filing_id'' # map fst section_dict))
       (\<lambda>u. save_sections filing_id rest
          (w\<lparr> ncsr_sections := ncsr_sections w @
                 [\<lparr> sec_filing_id = filing_id, sec_data = section_dict \<rparr>] \<rparr>))"

text \<open>The inner loop: \<^verbatim>\<open>NcsrTableRow(table_id=table.id, **row_data)\<close>.\<close>

fun save_rows :: "int \<Rightarrow> pydict list \<Rightarrow> database \<Rightarrow> pyexc + database" where
  "save_rows table_id [] w = Inr w"
| "save_rows table_id (row_dict # rest) w =
     then_exc
       (check_keywords ''NcsrTableRow'' NcsrTableRow_attributes
          (''table_id'' # map fst row_dict))
       (\<lambda>u. save_rows table_id rest
          (w\<lparr> ncsr_table_rows := ncsr_table_rows w @
                 [\<lparr> row_table_id = table_id, row_data = row_dict \<rparr>] \<rparr>))"

text \<open>
  The loop over \<^verbatim>\<open>result.get("tables", [])\<close>: \<^verbatim>\<open>NcsrTable(filing_id=..., **table_data)\<close>
  is added and flushed, which draws its id from the sequence, then its rows are added
  under that id.
\<close>

fun save_tables :: "int \<Rightarrow> table_data list \<Rightarrow> database \<Rightarrow> pyexc + database" where
  "save_tables filing_id [] w = Inr w"
| "save_tables filing_id (table_data # rest) w =
     then_exc
       (check_keywords ''NcsrTable'' NcsrTable_attributes
          (''filing_id'' # map fst (td_columns table_data)))
       (\<lambda>u. let table = \<lparr> tbl_id = table_seq w, tbl_filing_id = filing_id,
                           tbl_data = td_columns table_data \<rparr>;
                 w = w\<lparr> ncsr_tables := ncsr_tables w @ [table],
                        table_seq := table_seq w + 1 \<rparr>
             in then_exc (save_rows (tbl_id table) (td_rows table_data) w)
                  (save_tables filing_id rest))"

text \<open>
  The steps 1 to 5 of \<^verbatim>\<open>save_processing_result\<close> on the data of the session, for a
  filing that was found under the key \<open>key\<close>.
\<close>

definition save_processing_result_body ::
  "environment \<Rightarrow> (Filing \<Rightarrow> int) \<Rightarrow> int \<Rightarrow> result \<Rightarrow> string \<Rightarrow> database \<Rightarrow> pyexc + database" where
  "save_processing_result_body env key filing_id result tier w =
     (let w = w\<lparr> filings :=
                 update_first (\<lambda>f. key f = filing_id)
                   (\<lambda>filing. filing\<lparr>
                      f_processing_status :=
                        (if r_success result = Some True then ''completed'' else ''failed''),
                      f_processing_tier := Some tier,
                      f_updated_at := utcnow env \<rparr>)
                   (filings w) \<rparr>
      in then_exc
           (case r_fund_metadata result of
              None \<Rightarrow> Inr w
            | Some meta \<Rightarrow>
                if meta = [] then Inr w
                else then_exc
                       (check_keywords ''FundMetadata'' FundMetadata_attributes
                          [''filing_id'', ''fund_name'', ''total_net_assets'', ''raw_data''])
                       (\<lambda>u. Inr (w\<lparr> fund_metadata := fund_metadata w @
                                [\<lparr> fm_filing_id = filing_id,
                                    fm_fund_name = map_of meta ''fund_name'',
                                    fm_total_net_assets = map_of meta ''total_net_assets'',
                                    fm_raw_data = meta \<rparr>] \<rparr>)))
           (\<lambda>w. then_exc (save_sections filing_id (get_default (r_sections result) []) w)
              (\<lambda>w. then_exc (save_tables filing_id (get_default (r_tables result) []) w)
                 (\<lambda>w. then_exc
                    (check_keywords ''ProcessingResult'' ProcessingResult_attributes
                       [''filing_id'', ''processing_tier'', ''success'', ''tables_extracted'',
                        ''sections_found'', ''processing_duration'', ''result_data'',
                        ''created_at''])
                    (\<lambda>u. Inr (w\<lparr> processing_results := processing_results w @
                             [\<lparr> pr_filing_id = filing_id,
                                 pr_processing_tier = tier,
                                 pr_success = get_default (r_success result) False,
                                 pr_processing_duration =
                                   get_default (r_processing_duration result) 0,
                                 pr_created_at = utcnow env \<rparr>] \<rparr>))))))"

text \<open>
  \<^verbatim>\<open>DatabaseManager.save_processing_result\<close> returns a flag or raises, and leaves a
  database. Its first statement reads \<^verbatim>\<open>Filing.id\<close>. \<^verbatim>\<open>False\<close> when the filing is not
  found; otherwise the body and \<^verbatim>\<open>commit\<close>; \<^verbatim>\<open>except SQLAlchemyError\<close> rolls back and
  returns \<^verbatim>\<open>False\<close>, and any other exception leaves the function, the session being
  closed without a commit.
\<close>

definition save_processing_result ::
  "environment \<Rightarrow> database \<Rightarrow> int \<Rightarrow> result \<Rightarrow> string \<Rightarrow> (pyexc + bool) \<times> database" where
  "save_processing_result env db filing_id result tier =
     (let session = get_session db
      in case Filing_int_attribute ''id'' of
           None \<Rightarrow> (Inl (AttributeError ''type object Filing has no attribute id''),
                     close session)
         | Some key \<Rightarrow>
             (case find (\<lambda>f. key f = filing_id) (filings (working session)) of
                None \<Rightarrow> (Inr False, close session)
              | Some filing \<Rightarrow>
                  (case save_processing_result_body env key filing_id result tier
                          (working session) of
                     Inl (SQLAlchemyError m) \<Rightarrow> (Inr False, close (rollback session))
                   | Inl e \<Rightarrow> (Inl e, close session)
                   | Inr w \<Rightarrow>
                       (let session = session\<lparr> working := w \<rparr>
                        in if db_commits env then (Inr True, close (commit session))
                           else (Inr False, close (rollback session))))))"

text \<open>A dict with no key set, from which the result dicts below are built.\<close>

definition empty_result :: result where
  "empty_result = \<lparr> r_success = None, r_error = None, r_error_type = None,
     r_filing_id = None, r_processing_tier = None, r_processing_duration = None,
     r_extraction_method = None, r_fund_metadata = None, r_sections = None,
     r_tables = None, r_table_count = None, r_section_count = None,
     r_xbrl_facts_count = None \<rparr>"

section \<open>The integrated parser (parsers/base.py, parsers/integrated\_parser.py)\<close>

record FilingMetadata =
  md_accession_number :: "string option"
  md_cik :: "string option"
  md_company_name :: "string option"
  md_form_type :: "string option"

record XBRLFact =
  xf_name :: string
  xf_value :: string
  xf_context_ref :: "string option"
  xf_unit :: "string option"

text \<open>The three keys of the strategy dict.\<close>

record strategy =
  use_sgml :: bool
  use_xbrl :: bool
  primary_parser :: "string option"

text \<open>
  The \<^verbatim>\<open>raw_data\<close> dict. Of a sub-parser's dict only the \<^verbatim>\<open>xbrl_content\<close> list is read;
  the integrated parser stores the strategy, the names of the sub-parsers whose raw data
  it kept, and per sub-parser run its name, its success flag and its number of facts.
\<close>

record raw_data =
  rd_xbrl_content :: "string list"
  rd_strategy :: "strategy option"
  rd_parser_results :: "string list"
  rd_individual_results :: "(string \<times> bool \<times> nat) list"

record ParsingResult =
  p_success :: bool
  p_parser_name :: string
  p_metadata :: "FilingMetadata option"
  p_xbrl_facts :: "XBRLFact list"
  p_raw_data :: "raw_data option"
  p_error_message :: "string option"
  p_parsing_time :: real

text \<open>
  The constructor with \<^verbatim>\<open>__post_init__\<close>: a failed result without a message gets
  \<^verbatim>\<open>Unknown parsing error\<close>.
\<close>

definition ParsingResult_init ::
  "bool \<Rightarrow> string \<Rightarrow> FilingMetadata option \<Rightarrow> XBRLFact list \<Rightarrow> raw_data option
     \<Rightarrow> string option \<Rightarrow> real \<Rightarrow> ParsingResult" where
  "ParsingResult_init success parser_name metadata facts raw error_message parsing_time =
     \<lparr> p_success = success, p_parser_name = parser_name, p_metadata = metadata,
       p_xbrl_facts = facts, p_raw_data = raw,
       p_error_message =
         (if \<not> success \<and> \<not> truthy error_message then Some ''Unknown parsing error''
          else error_message),
       p_parsing_time = parsing_time \<rparr>"

text \<open>
  A sub-parser (\<^verbatim>\<open>SGMLParser\<close>, \<^verbatim>\<open>XBRLParser\<close>) is taken by its two methods, each of
  which may return or raise on a given content. The integrated parser holds each of
  them or \<^verbatim>\<open>None\<close>.
\<close>

record sub_parser =
  sp_is_compatible :: "string \<Rightarrow> pyexc + bool"
  sp_parse :: "string \<Rightarrow> pyexc + ParsingResult"

record FilingParser =
  sgml_parser :: "sub_parser option"
  xbrl_parser :: "sub_parser option"

text \<open>\<^verbatim>\<open>self.p and self.p.is_compatible(content)\<close>\<close>

definition parser_compatible :: "sub_parser option \<Rightarrow> string \<Rightarrow> pyexc + bool" where
  "parser_compatible p content =
     (case p of None \<Rightarrow> Inr False | Some q \<Rightarrow> sp_is_compatible q content)"

text \<open>\<^verbatim>\<open>FilingParser.is_compatible\<close>\<close>

definition is_compatible :: "FilingParser \<Rightarrow> string \<Rightarrow> pyexc + bool" where
  "is_compatible self content =
     except_Exception
       (then_exc (parser_compatible (sgml_parser self) content) (\<lambda>sgml.
          if sgml then Inr True
          else then_exc (parser_compatible (xbrl_parser self) content) (\<lambda>xbrl.
            if xbrl then Inr True else Inr False)))
       (\<lambda>e. Inr False)"

text \<open>\<^verbatim>\<open>FilingParser.determine_parser_strategy\<close>\<close>

definition determine_parser_strategy :: "FilingParser \<Rightarrow> string \<Rightarrow> pyexc + strategy" where
  "determine_parser_strategy self content =
     (let strategy = \<lparr> use_sgml = False, use_xbrl = False, primary_parser = None \<rparr>
      in then_exc (parser_compatible (sgml_parser self) content) (\<lambda>sgml.
           let strategy = (if sgml then strategy\<lparr> use_sgml := True,
                                        primary_parser := Some ''sgml'' \<rparr>
                           else strategy)
           in then_exc (parser_compatible (xbrl_parser self) content) (\<lambda>xbrl.
                if xbrl then
                  Inr (let strategy = strategy\<lparr> use_xbrl := True \<rparr>
                       in if primary_parser strategy = None
                          then strategy\<lparr> primary_parser := Some ''xbrl'' \<rparr>
                          else strategy)
                else Inr strategy)))"

text \<open>\<^verbatim>\<open>sep.join(xs)\<close>\<close>

fun join :: "string \<Rightarrow> string list \<Rightarrow> string" where
  "join sep [] = []"
| "join sep [x] = x"
| "join sep (x # y # ys) = x @ sep @ join sep (y # ys)"

text \<open>\<^verbatim>\<open>FilingParser._extract_xbrl_content\<close>\<close>

definition extract_xbrl_content ::
  "FilingParser \<Rightarrow> string \<Rightarrow> strategy \<Rightarrow> pyexc + string option" where
  "extract_xbrl_content self content strategy =
     except_Exception
       (let rest = (if use_xbrl strategy \<and> \<not> use_sgml strategy then Inr (Some content)
                    else Inr None)
        in case sgml_parser self of
             Some sgml \<Rightarrow>
               if use_sgml strategy then
                 then_exc (sp_parse sgml content) (\<lambda>sgml_result.
                   case p_raw_data sgml_result of
                     Some raw \<Rightarrow>
                       if p_success sgml_result \<and> rd_xbrl_content raw \<noteq> []
                       then Inr (Some (join [CHR 0x0A] (rd_xbrl_content raw)))
                       else rest
                   | None \<Rightarrow> rest)
               else rest
           | None \<Rightarrow> rest)
       (\<lambda>e. Inr None)"

text \<open>
  The state of the local variables \<^verbatim>\<open>results\<close>, \<^verbatim>\<open>combined_metadata\<close>,
  \<^verbatim>\<open>combined_xbrl_facts\<close> and \<^verbatim>\<open>combined_raw_data\<close> (its keys), and what one sub-parser
  result does to them.
\<close>

record combined =
  results :: "(string \<times> ParsingResult) list"
  combined_metadata :: "FilingMetadata option"
  combined_xbrl_facts :: "XBRLFact list"
  combined_raw_data :: "string list"

definition add_sgml_result :: "ParsingResult \<Rightarrow> combined \<Rightarrow> combined" where
  "add_sgml_result sgml_result c =
     (let c = c\<lparr> results := results c @ [(''sgml'', sgml_result)] \<rparr>
      in if p_success sgml_result then
           c\<lparr> combined_metadata :=
                 (if p_metadata sgml_result \<noteq> None then p_metadata sgml_result
                  else combined_metadata c),
               combined_xbrl_facts := combined_xbrl_facts c @ p_xbrl_facts sgml_result,
               combined_raw_data :=
                 (if p_raw_data sgml_result \<noteq> None then combined_raw_data c @ [''sgml'']
                  else combined_raw_data c) \<rparr>
         else c)"

definition add_xbrl_result :: "ParsingResult \<Rightarrow> combined \<Rightarrow> combined" where
  "add_xbrl_result xbrl_result c =
     (let c = c\<lparr> results := results c @ [(''xbrl'', xbrl_result)] \<rparr>
      in if p_success xbrl_result then
           c\<lparr> combined_metadata :=
                 (if combined_metadata c = None \<and> p_metadata xbrl_result \<noteq> None
                  then p_metadata xbrl_result else combined_metadata c),
               combined_xbrl_facts := combined_xbrl_facts c @ p_xbrl_facts xbrl_result,
               combined_raw_data :=
                 (if p_raw_data xbrl_result \<noteq> None then combined_raw_data c @ [''xbrl'']
                  else combined_raw_data c) \<rparr>
         else c)"

text \<open>
  The end of the \<^verbatim>\<open>try\<close> block: the overall success, the joined messages of the failed
  sub-parsers (\<^verbatim>\<open>join\<close> raises \<^verbatim>\<open>TypeError\<close> on a message that is \<^verbatim>\<open>None\<close>), and the
  combined result.
\<close>

definition combine_results :: "strategy \<Rightarrow> combined \<Rightarrow> pyexc + ParsingResult" where
  "combine_results strategy c =
     (let success = list_ex (\<lambda>(name, result). p_success result) (results c);
          errors = map (\<lambda>(name, result). p_error_message result)
                     (filter (\<lambda>(name, result). \<not> p_success result) (results c))
      in if None \<in> set errors
         then Inl (TypeError ''sequence item: expected str instance, NoneType found'')
         else Inr (ParsingResult_init success ''FilingParser'' (combined_metadata c)
                (combined_xbrl_facts c)
                (Some \<lparr> rd_xbrl_content = [], rd_strategy = Some strategy,
                         rd_parser_results = combined_raw_data c,
                         rd_individual_results =
                           map (\<lambda>(name, result).
                                  (name, p_success result, length (p_xbrl_facts result)))
                             (results c) \<rparr>)
                (if errors = [] then None else Some (join ''; '' (map the errors)))
                0))"

text \<open>The \<^verbatim>\<open>try\<close> block of \<^verbatim>\<open>FilingParser.parse\<close>.\<close>

definition parse_body :: "FilingParser \<Rightarrow> string \<Rightarrow> pyexc + ParsingResult" where
  "parse_body self content =
     then_exc (is_compatible self content) (\<lambda>compatible.
       if \<not> compatible
       then Inl (ParseError ''Content is not compatible with any available parser'')
       else then_exc (determine_parser_strategy self content) (\<lambda>strategy.
         let c = \<lparr> results = [], combined_metadata = None, combined_xbrl_facts = [],
                   combined_raw_data = [] \<rparr>
         in then_exc
              (case sgml_parser self of
                 Some sgml \<Rightarrow>
                   if use_sgml strategy
                   then then_exc (sp_parse sgml content) (\<lambda>sgml_result.
                          Inr (add_sgml_result sgml_result c))
                   else Inr c
               | None \<Rightarrow> Inr c)
              (\<lambda>c. then_exc
                 (case xbrl_parser self of
                    Some xbrl \<Rightarrow>
                      if use_xbrl strategy
                      then then_exc (extract_xbrl_content self content strategy)
                             (\<lambda>xbrl_content.
                                if truthy xbrl_content
                                then then_exc (sp_parse xbrl (the xbrl_content))
                                       (\<lambda>xbrl_result. Inr (add_xbrl_result xbrl_result c))
                                else Inr c)
                      else Inr c
                  | None \<Rightarrow> Inr c)
                 (combine_results strategy))))"

text \<open>
  \<^verbatim>\<open>measure_parsing_time\<close>: the decorator stores the elapsed time in a returned result and
  re-raises what the function raised.
\<close>

definition measure_parsing_time :: "real \<Rightarrow> pyexc + ParsingResult \<Rightarrow> pyexc + ParsingResult" where
  "measure_parsing_time elapsed outcome =
     (case outcome of
        Inr result \<Rightarrow> Inr (result\<lparr> p_parsing_time := elapsed \<rparr>)
      | Inl e \<Rightarrow> Inl e)"

text \<open>
  \<^verbatim>\<open>FilingParser.parse\<close>: the block above under \<^verbatim>\<open>except Exception as e\<close>, which returns
  a failed result with the message of \<open>e\<close>; \<open>elapsed\<close> is the time the decorator measures.
\<close>

definition parse :: "FilingParser \<Rightarrow> real \<Rightarrow> string \<Rightarrow> pyexc + ParsingResult" where
  "parse self elapsed content =
     measure_parsing_time elapsed
       (except_Exception (parse_body self content)
          (\<lambda>e. Inr (ParsingResult_init False ''FilingParser'' None [] None
                  (Some (''Integrated parsing failed: '' @ str_exc e)) 0)))"

section \<open>Filings in the database (storage/database.py)\<close>

text \<open>
  The \<^verbatim>\<open>filing_meta\<close> dict, as a record of the keys that are read; \<open>None\<close> is a key
  that is absent.
\<close>

record filing_meta =
  m_accession_number :: "string option"
  m_cik :: "string option"
  m_company_name :: "string option"
  m_file_size_mb :: "real option"

text \<open>
  The loop \<^verbatim>\<open>for key, value in filing_meta.items(): if hasattr(existing_filing, key):
  setattr(existing_filing, key, value)\<close> and the new \<open>updated_at\<close>.
\<close>

definition apply_filing_meta :: "environment \<Rightarrow> filing_meta \<Rightarrow> Filing \<Rightarrow> Filing" where
  "apply_filing_meta env meta existing_filing =
     (let existing_filing =
            (case m_accession_number meta of
               Some v \<Rightarrow>
                 if ''accession_number'' \<in> set Filing_attributes
                 then existing_filing\<lparr> f_accession_number := v \<rparr> else existing_filing
             | None \<Rightarrow> existing_filing);
          existing_filing =
            (case m_cik meta of
               Some v \<Rightarrow>
                 if ''cik'' \<in> set Filing_attributes
                 then existing_filing\<lparr> f_cik := Some v \<rparr> else existing_filing
             | None \<Rightarrow> existing_filing);
          existing_filing =
            (case m_company_name meta of
               Some v \<Rightarrow>
                 if ''company_name'' \<in> set Filing_attributes
                 then existing_filing\<lparr> f_company_name := Some v \<rparr> else existing_filing
             | None \<Rightarrow> existing_filing);
          existing_filing =
            (case m_file_size_mb meta of
               Some v \<Rightarrow>
                 if ''file_size_mb'' \<in> set Filing_attributes
                 then existing_filing\<lparr> f_file_size_mb := v \<rparr> else existing_filing
             | None \<Rightarrow> existing_filing)
      in existing_filing\<lparr> f_updated_at := utcnow env \<rparr>)"

text \<open>
  \<^verbatim>\<open>DatabaseManager.create_or_update_filing\<close> returns an id or raises, and leaves a
  database. \<^verbatim>\<open>ValueError\<close> without an accession number. A filing of that accession number
  is updated and committed, and then \<^verbatim>\<open>existing_filing.id\<close> is read for the log line and
  for the result. Otherwise \<^verbatim>\<open>Filing(...)\<close> is called with its sixteen keywords, the
  new filing is added and committed, and \<^verbatim>\<open>new_filing.id\<close> is read. A
  \<^verbatim>\<open>SQLAlchemyError\<close> is rolled back and raised again; any other exception leaves the
  function as it is.
\<close>

definition create_or_update_filing ::
  "environment \<Rightarrow> database \<Rightarrow> filing_meta \<Rightarrow> (pyexc + int) \<times> database" where
  "create_or_update_filing env db meta =
     (let session = get_session db
      in if \<not> truthy (m_accession_number meta)
         then (Inl (ValueError ''accession_number is required in filing_meta''), close session)
         else
           (let accession = the (m_accession_number meta)
            in case find (\<lambda>f. f_accession_number f = accession) (filings (working session)) of
                 Some existing_filing \<Rightarrow>
                   (let session = session\<lparr> working := (working session)\<lparr> filings :=
                          update_first (\<lambda>f. f_accession_number f = accession)
                            (apply_filing_meta env meta) (filings (working session)) \<rparr> \<rparr>
                    in if db_commits env
                       then
                         (case Filing_int_attribute ''id'' of
                            None \<Rightarrow> (Inl (AttributeError ''Filing object has no attribute id''),
                                      close (commit session))
                          | Some key \<Rightarrow> (Inr (key existing_filing), close (commit session)))
                       else (Inl (SQLAlchemyError ''database error''),
                             close (rollback session)))
               | None \<Rightarrow>
                   (case check_keywords ''Filing'' Filing_attributes
                           [''accession_number'', ''cik'', ''company_name'', ''form_type'',
                            ''filing_date'', ''period_of_report'', ''file_size_mb'',
                            ''filing_html_url'', ''acceptance_datetime'', ''sic'',
                            ''state_of_incorporation'', ''fiscal_year_end'',
                            ''business_address'', ''business_phone'', ''created_at'',
                            ''updated_at''] of
                      Inl e \<Rightarrow> (Inl e, close session)
                    | Inr u \<Rightarrow>
                        (let new_filing =
                               \<lparr> f_filing_id = filing_seq (working session),
                                 f_accession_number = accession,
                                 f_cik = m_cik meta,
                                 f_company_name = m_company_name meta,
                                 f_file_size_mb = get_default (m_file_size_mb meta) 0,
                                 f_processing_status = ''pending'',
                                 f_processing_tier = None,
                                 f_created_at = utcnow env,
                                 f_updated_at = utcnow env \<rparr>;
                             session = session\<lparr> working := (working session)\<lparr>
                               filings := filings (working session) @ [new_filing],
                               filing_seq := filing_seq (working session) + 1 \<rparr> \<rparr>
                         in if db_commits env
                            then
                              (case Filing_int_attribute ''id'' of
                                 None \<Rightarrow>
                                   (Inl (AttributeError ''Filing object has no attribute id''),
                                    close (commit session))
                               | Some key \<Rightarrow> (Inr (key new_filing), close (commit session)))
                            else (Inl (SQLAlchemyError ''database error''),
                                  close (rollback session))))))"

text \<open>
  \<^verbatim>\<open>DatabaseManager.update_filing_processing_status\<close>: its first statement reads
  \<^verbatim>\<open>Filing.id\<close>; only \<^verbatim>\<open>SQLAlchemyError\<close> is caught.
\<close>

definition update_filing_processing_status ::
  "environment \<Rightarrow> database \<Rightarrow> int \<Rightarrow> string \<Rightarrow> string \<Rightarrow> (pyexc + bool) \<times> database" where
  "update_filing_processing_status env db filing_id tier status =
     (let session = get_session db
      in case Filing_int_attribute ''id'' of
           None \<Rightarrow> (Inl (AttributeError ''type object Filing has no attribute id''),
                     close session)
         | Some key \<Rightarrow>
             (case find (\<lambda>f. key f = filing_id) (filings (working session)) of
                Some filing \<Rightarrow>
                  (let session = session\<lparr> working := (working session)\<lparr> filings :=
                         update_first (\<lambda>f. key f = filing_id)
                           (\<lambda>filing. filing\<lparr> f_processing_tier := Some tier,
                                             f_processing_status := status,
                                             f_updated_at := utcnow env \<rparr>)
                           (filings (working session)) \<rparr> \<rparr>
                   in if db_commits env then (Inr True, close (commit session))
                      else (Inr False, close (rollback session)))
              | None \<Rightarrow> (Inr False, close session)))"

section \<open>The parser manager (core/parser\_integration.py)\<close>

text \<open>
  \<^verbatim>\<open>ParserManager._extract_metadata_fields\<close>, for the modelled fields; a value that is
  \<^verbatim>\<open>None\<close> is written as the empty string. The dict is never empty.
\<close>

definition extract_metadata_fields :: "FilingMetadata \<Rightarrow> pydict" where
  "extract_metadata_fields metadata =
     [(''accession_number'', get_default (md_accession_number metadata) []),
      (''cik'', get_default (md_cik metadata) []),
      (''company_name'', get_default (md_company_name metadata) []),
      (''form_type'', get_default (md_form_type metadata) [])]"

text \<open>
  The fields of the dataclass \<^verbatim>\<open>XBRLFact\<close> of parsers/base.py: a fact has a \<^verbatim>\<open>name\<close> and
  a \<^verbatim>\<open>unit\<close>, no \<^verbatim>\<open>concept\<close> and no \<^verbatim>\<open>unit_ref\<close>.
\<close>

definition XBRLFact_attributes :: "string list" where
  "XBRLFact_attributes =
     [''name'', ''value'', ''context_ref'', ''unit'', ''decimals'', ''scale'',
      ''additional_attributes'']"

text \<open>
  \<^verbatim>\<open>ParserManager._extract_xbrl_facts_summary\<close>, as far as it decides the outcome: an
  empty list gives the empty dict; otherwise the loop reads \<^verbatim>\<open>fact.concept\<close>,
  \<^verbatim>\<open>fact.context_ref\<close>, \<^verbatim>\<open>fact.value\<close> and \<^verbatim>\<open>fact.unit_ref\<close>, in this order, and raises
  \<^verbatim>\<open>AttributeError\<close> at the first that a fact does not have. The summary itself goes under
  the key \<^verbatim>\<open>xbrl_metrics\<close>, which no modelled code reads.
\<close>

definition extract_xbrl_facts_summary :: "XBRLFact list \<Rightarrow> pyexc + unit" where
  "extract_xbrl_facts_summary facts =
     (if facts = [] then Inr ()
      else case find (\<lambda>a. a \<notin> set XBRLFact_attributes)
                  [''concept'', ''context_ref'', ''value'', ''unit_ref''] of
             Some a \<Rightarrow> Inl (AttributeError (''XBRLFact object has no attribute '' @ a))
           | None \<Rightarrow> Inr ())"

text \<open>
  \<^verbatim>\<open>ParserManager._convert_to_legacy_format\<close>; the keys \<^verbatim>\<open>parser_timing\<close>,
  \<^verbatim>\<open>xbrl_metrics\<close> and \<^verbatim>\<open>parser_raw_data\<close>, which no modelled code reads, are left out.
\<close>

definition convert_to_legacy_format :: "ParsingResult \<Rightarrow> string \<Rightarrow> real \<Rightarrow> pyexc + result" where
  "convert_to_legacy_format parsing_result tier total_duration =
     (let metadata_dict =
            (case p_metadata parsing_result of
               Some metadata \<Rightarrow> extract_metadata_fields metadata
             | None \<Rightarrow> [])
      in then_exc
           (if p_xbrl_facts parsing_result \<noteq> []
            then extract_xbrl_facts_summary (p_xbrl_facts parsing_result)
            else Inr ())
           (\<lambda>u. let legacy_result = empty_result\<lparr>
                       r_success := Some (p_success parsing_result),
                       r_extraction_method := Some (''parser_integration_'' @ tier),
                       r_processing_duration := Some total_duration,
                       r_fund_metadata := Some metadata_dict,
                       r_xbrl_facts_count := Some (int (length (p_xbrl_facts parsing_result))),
                       r_sections := Some [],
                       r_tables := Some [],
                       r_table_count := Some 0,
                       r_section_count := Some 0 \<rparr>
                 in if \<not> p_success parsing_result
                    then Inr (legacy_result\<lparr> r_error := p_error_message parsing_result,
                                r_error_type := Some ''parsing'' \<rparr>)
                    else Inr legacy_result))"

text \<open>\<^verbatim>\<open>ParserManager._fallback_extraction\<close>\<close>

definition fallback_extraction :: "string \<Rightarrow> result" where
  "fallback_extraction tier =
     empty_result\<lparr> r_success := Some True,
       r_extraction_method := Some (''fallback_'' @ tier),
       r_processing_duration := Some 0.1,
       r_fund_metadata := Some [],
       r_xbrl_facts_count := Some 0,
       r_sections := Some [],
       r_tables := Some [],
       r_table_count := Some 0,
       r_section_count := Some 0 \<rparr>"

text \<open>
  \<^verbatim>\<open>ParserManager.parse_filing_content\<close>, for a manager whose \<^verbatim>\<open>filing_parser\<close> is the
  first argument; \<open>elapsed\<close> stands for the durations that are measured.
\<close>

definition parse_filing_content ::
  "FilingParser option \<Rightarrow> real \<Rightarrow> string \<Rightarrow> string \<Rightarrow> pyexc + result" where
  "parse_filing_content filing_parser elapsed content tier =
     (case filing_parser of
        None \<Rightarrow> Inr (fallback_extraction tier)
      | Some parser \<Rightarrow>
          except_Exception
            (then_exc (parse parser elapsed content) (\<lambda>parsing_result.
               convert_to_legacy_format parsing_result tier elapsed))
            (\<lambda>e. Inr (empty_result\<lparr>
                    r_success := Some False,
                    r_error := Some (''Parser integration error: '' @ str_exc e),
                    r_error_type := Some ''parser_integration'',
                    r_processing_duration := Some elapsed,
                    r_extraction_method := Some ''parser_integration_failed'' \<rparr>)))"

section \<open>Timeouts (core/timeout\_manager.py)\<close>

text \<open>
  The processor object with what its run reads from outside: the environment of the
  database calls, the parser of its parser manager, the legacy extraction (which parses
  HTML and may raise), whether the platform has \<^verbatim>\<open>SIGALRM\<close>, how many seconds the
  extraction runs, the durations measured with \<^verbatim>\<open>time.time()\<close>, and the formatting of
  numbers in messages.
\<close>

record processor =
  tp_env :: environment
  tp_filing_parser :: "FilingParser option"
  tp_legacy_extraction :: "string \<Rightarrow> string \<Rightarrow> pyexc + result"
  tp_has_SIGALRM :: bool
  tp_parse_seconds :: real
  tp_elapsed :: real
  tp_str_float :: "real \<Rightarrow> string"
  tp_str_int :: "int \<Rightarrow> string"

text \<open>
  The module-level context manager \<^verbatim>\<open>timeout_context(seconds)\<close> around a body. Without
  \<^verbatim>\<open>SIGALRM\<close> the body just runs. Otherwise \<^verbatim>\<open>signal.alarm(seconds)\<close> takes a C
  \<^verbatim>\<open>int\<close>, raising \<^verbatim>\<open>OverflowError\<close> outside its range, and passes it on as an unsigned
  number of seconds, 0 meaning no alarm; the signal arrives when the body runs longer,
  and the handler raises \<open>TimeoutError\<close>, which is taken to leave the body.
\<close>

definition timeout_context :: "processor \<Rightarrow> int \<Rightarrow> pyexc + 'a \<Rightarrow> pyexc + 'a" where
  "timeout_context self seconds body =
     (if \<not> tp_has_SIGALRM self then body
      else if seconds \<ge> 2 ^ 31
      then Inl (OverflowError ''signed integer is greater than maximum'')
      else if seconds < - (2 ^ 31)
      then Inl (OverflowError ''signed integer is less than minimum'')
      else if 0 < seconds mod 2 ^ 32 \<and> real_of_int (seconds mod 2 ^ 32) < tp_parse_seconds self
      then Inl (TimeoutError (''Operation timed out after '' @ tp_str_int self seconds
                  @ '' seconds''))
      else body)"

text \<open>
  The class \<^verbatim>\<open>TimeoutManager\<close>: the attributes of its instances are the \<^verbatim>\<open>settings\<close> set
  by \<^verbatim>\<open>__init__\<close> and its two methods. \<^verbatim>\<open>timeout_context\<close> is a function of the module,
  not an attribute of the class.
\<close>

definition TimeoutManager_attributes :: "string list" where
  "TimeoutManager_attributes = [''settings'', ''get_parse_timeout'', ''get_processing_tier'']"

section \<open>The tiered processor (core/tiered\_processor.py)\<close>

text \<open>The keys of \<^verbatim>\<open>self.extractors\<close>.\<close>

definition extractors :: "string list" where
  "extractors = [''standard'', ''limited'', ''minimal'']"

text \<open>\<^verbatim>\<open>TieredProcessor._hybrid_extraction_logic\<close>\<close>

definition hybrid_extraction_logic :: "processor \<Rightarrow> string \<Rightarrow> string \<Rightarrow> pyexc + result" where
  "hybrid_extraction_logic self html_content tier =
     (if tp_filing_parser self \<noteq> None
      then parse_filing_content (tp_filing_parser self) (tp_elapsed self) html_content tier
      else tp_legacy_extraction self html_content tier)"

text \<open>
  \<^verbatim>\<open>TieredProcessor._process_with_tier\<close>. The \<^verbatim>\<open>with\<close> statement first evaluates
  \<^verbatim>\<open>self.timeout_manager.timeout_context\<close>, an attribute lookup on the
  \<^verbatim>\<open>TimeoutManager\<close> instance, which raises \<^verbatim>\<open>AttributeError\<close> when the instance has no
  such attribute.
\<close>

definition process_with_tier :: "processor \<Rightarrow> string \<Rightarrow> string \<Rightarrow> pyexc + result" where
  "process_with_tier self tier html_content =
     (if tier \<notin> set extractors
      then Inl (ValueError (''Unknown processing tier: '' @ tier))
      else
        (let timeout = get_timeout_for_tier settings tier
         in if ''timeout_context'' \<in> set TimeoutManager_attributes
            then timeout_context self timeout (hybrid_extraction_logic self html_content tier)
            else Inl (AttributeError
                   ''TimeoutManager object has no attribute timeout_context'')))"

text \<open>The four handlers; each calls \<^const>\<open>add_filing\<close> and builds the result.\<close>

definition handle_dead_letter_filing ::
  "processor \<Rightarrow> database \<Rightarrow> int \<Rightarrow> real \<Rightarrow> result \<times> database" where
  "handle_dead_letter_filing self db filing_id file_size_mb =
     (let error_msg = ''File too large for processing: '' @ tp_str_float self file_size_mb
            @ ''MB > '' @ tp_str_float self (LARGE_FILE_THRESHOLD settings) @ ''MB'';
          db = snd (add_filing (tp_env self) db (Some filing_id) error_msg file_size_mb
                 ''file_too_large'' None None)
      in (empty_result\<lparr> r_success := Some False, r_error := Some error_msg,
            r_processing_tier := Some ''dead_letter'', r_filing_id := Some filing_id \<rparr>, db))"

definition handle_timeout_error ::
  "processor \<Rightarrow> database \<Rightarrow> int option \<Rightarrow> filing_meta \<Rightarrow> string \<Rightarrow> string \<Rightarrow> real
     \<Rightarrow> result \<times> database" where
  "handle_timeout_error self db filing_id meta tier error duration =
     (let file_size_mb = get_default (m_file_size_mb meta) 0;
          db = snd (add_filing (tp_env self) db filing_id
                 (''Timeout in '' @ tier @ '' tier: '' @ error) file_size_mb
                 ''timeout'' (Some tier) None)
      in (empty_result\<lparr> r_success := Some False, r_error := Some error,
            r_error_type := Some ''timeout'', r_processing_tier := Some tier,
            r_processing_duration := Some duration, r_filing_id := filing_id \<rparr>, db))"

definition handle_memory_error ::
  "processor \<Rightarrow> database \<Rightarrow> int option \<Rightarrow> filing_meta \<Rightarrow> string \<Rightarrow> string \<Rightarrow> real
     \<Rightarrow> result \<times> database" where
  "handle_memory_error self db filing_id meta tier error duration =
     (let file_size_mb = get_default (m_file_size_mb meta) 0;
          db = snd (add_filing (tp_env self) db filing_id
                 (''Memory error in '' @ tier @ '' tier: '' @ error) file_size_mb
                 ''memory'' (Some tier) None)
      in (empty_result\<lparr> r_success := Some False, r_error := Some error,
            r_error_type := Some ''memory'', r_processing_tier := Some tier,
            r_processing_duration := Some duration, r_filing_id := filing_id \<rparr>, db))"

definition handle_general_error ::
  "processor \<Rightarrow> database \<Rightarrow> int option \<Rightarrow> filing_meta \<Rightarrow> string \<Rightarrow> string \<Rightarrow> real
     \<Rightarrow> result \<times> database" where
  "handle_general_error self db filing_id meta tier error duration =
     (let file_size_mb = get_default (m_file_size_mb meta) 0;
          db = snd (add_filing (tp_env self) db filing_id
                 (''Processing error in '' @ tier @ '' tier: '' @ error) file_size_mb
                 ''processing'' (Some tier) None)
      in (empty_result\<lparr> r_success := Some False, r_error := Some error,
            r_error_type := Some ''processing'', r_processing_tier := Some tier,
            r_processing_duration := Some duration, r_filing_id := filing_id \<rparr>, db))"

text \<open>
  The \<^verbatim>\<open>except\<close> clauses of \<^verbatim>\<open>process_filing\<close>, in their order: \<open>TimeoutError\<close>,
  \<^verbatim>\<open>MemoryError\<close>, then \<^verbatim>\<open>Exception\<close>; anything else leaves \<^verbatim>\<open>process_filing\<close>. The
  tier is \<^verbatim>\<open>tier or "unknown"\<close>.
\<close>

definition handle_exception ::
  "processor \<Rightarrow> database \<Rightarrow> int option \<Rightarrow> filing_meta \<Rightarrow> string option \<Rightarrow> pyexc
     \<Rightarrow> (pyexc + result) \<times> database" where
  "handle_exception self db filing_id meta tier e =
     (let tier = (if truthy tier then the tier else ''unknown'')
      in case e of
           TimeoutError m \<Rightarrow>
             map_prod Inr id
               (handle_timeout_error self db filing_id meta tier (str_exc e) (tp_elapsed self))
         | MemoryError m \<Rightarrow>
             map_prod Inr id
               (handle_memory_error self db filing_id meta tier (str_exc e) (tp_elapsed self))
         | _ \<Rightarrow>
             if is_Exception e
             then map_prod Inr id
                    (handle_general_error self db filing_id meta tier (str_exc e)
                       (tp_elapsed self))
             else (Inl e, db))"

text \<open>
  \<^verbatim>\<open>TieredProcessor.process_filing\<close> returns a result dict or raises, and leaves a
  database. The in-memory metrics and the log lines are not modelled; the branch that
  would save enhanced parser results tests \<^verbatim>\<open>hasattr\<close> on a dict and is never taken.
\<close>

definition process_filing ::
  "processor \<Rightarrow> database \<Rightarrow> filing_meta \<Rightarrow> string \<Rightarrow> (pyexc + result) \<times> database" where
  "process_filing self db meta html_content =
     (case create_or_update_filing (tp_env self) db meta of
        (Inl e, db) \<Rightarrow> handle_exception self db None meta None e
      | (Inr filing_id, db) \<Rightarrow>
          (let file_size_mb = get_default (m_file_size_mb meta) 0;
               tier = determine_processing_tier file_size_mb
           in case update_filing_processing_status (tp_env self) db filing_id tier
                     ''processing'' of
                (Inl e, db) \<Rightarrow> handle_exception self db (Some filing_id) meta (Some tier) e
              | (Inr updated, db) \<Rightarrow>
                  if tier = ''dead_letter''
                  then map_prod Inr id
                         (handle_dead_letter_filing self db filing_id file_size_mb)
                  else
                    (case process_with_tier self tier html_content of
                       Inl e \<Rightarrow> handle_exception self db (Some filing_id) meta (Some tier) e
                     | Inr processing_result \<Rightarrow>
                         (let processing_result = processing_result\<lparr>
                                r_processing_duration := Some (tp_elapsed self),
                                r_filing_id := Some filing_id,
                                r_processing_tier := Some tier \<rparr>
                          in case save_processing_result (tp_env self) db filing_id
                                    processing_result tier of
                               (Inl e, db) \<Rightarrow>
                                 handle_exception self db (Some filing_id) meta (Some tier) e
                             | (Inr saved, db) \<Rightarrow> (Inr processing_result, db)))))"

section \<open>Example states\<close>

text \<open>
  A database with one filing in processing; the same with a row of the dead-letter
  queue for it, as one failed download of a 2 MB filing leaves it when the row is
  inserted with SQL: first attempt, retry-eligible, next retry after 24 hours,
  priority 4.
\<close>

definition example_env :: environment where
  "example_env = \<lparr> utcnow = 1000, capture_system_metrics = [], db_commits = True \<rparr>"

definition example_filing :: Filing where
  "example_filing = \<lparr> f_filing_id = 1, f_accession_number = ''0001193125-24-000001'',
     f_cik = Some ''1084380'', f_company_name = None, f_file_size_mb = 2,
     f_processing_status = ''processing'', f_processing_tier = Some ''standard'',
     f_created_at = 0, f_updated_at = 0 \<rparr>"

definition empty_database :: database where
  "empty_database = \<lparr> filings = [], dead_letter_queue = [], fund_metadata = [],
     ncsr_sections = [], ncsr_tables = [], ncsr_table_rows = [], xbrl_facts = [],
     processing_results = [], filing_seq = 1, table_seq = 1 \<rparr>"

definition example_row :: DLQModel where
  "example_row = \<lparr> dlq_filing_id = Some 1,
     dlq_failure_reason = ''Failed to download content'', dlq_failure_type = ''network'',
     dlq_original_tier = None, dlq_file_size_mb = 2, dlq_attempt_count = 1,
     dlq_max_attempts = 5, dlq_retry_eligible = True, dlq_last_attempt = 1000,
     dlq_next_retry = Some 87400, dlq_suggested_tier = Some ''standard'',
     dlq_priority = 4, dlq_created_at = 1000, dlq_updated_at = 1000 \<rparr>"

definition example_db_no_queue :: database where
  "example_db_no_queue = empty_database\<lparr> filings := [example_filing], filing_seq := 2 \<rparr>"

definition example_db :: database where
  "example_db = example_db_no_queue\<lparr> dead_letter_queue := [example_row] \<rparr>"

text \<open>
  A failed result as the parser manager returns it.
\<close>

definition example_failed_result :: result where
  "example_failed_result =
     empty_result\<lparr> r_success := Some False,
       r_error := Some ''Parser integration error: out of memory'',
       r_error_type := Some ''parser_integration'',
       r_processing_duration := Some 2,
       r_extraction_method := Some ''parser_integration_failed'' \<rparr>"

text \<open>
  An integrated parser whose SGML sub-parser accepts the content and then runs out of
  memory, and one whose SGML sub-parser is interrupted from the keyboard.
\<close>

definition example_parser_oom :: FilingParser where
  "example_parser_oom =
     \<lparr> sgml_parser = Some \<lparr> sp_is_compatible = (\<lambda>content. Inr True),
                             sp_parse = (\<lambda>content. Inl (MemoryError ''out of memory'')) \<rparr>,
       xbrl_parser = None \<rparr>"


text \<open>
  A processor on a platform with \<^verbatim>\<open>SIGALRM\<close> whose extraction would run for 1000 seconds,
  longer than every tier's timeout, and the descriptor of a 3 MB filing.
\<close>

definition example_processor :: processor where
  "example_processor =
     \<lparr> tp_env = example_env,
       tp_filing_parser = Some example_parser_oom,
       tp_legacy_extraction = (\<lambda>html_content tier. Inr (fallback_extraction tier)),
       tp_has_SIGALRM = True,
       tp_parse_seconds = 1000,
       tp_elapsed = 0,
       tp_str_float = (\<lambda>x. ''?''),
       tp_str_int = (\<lambda>n. ''?'') \<rparr>"

definition example_meta :: filing_meta where
  "example_meta =
     \<lparr> m_accession_number = Some ''0001193125-24-000002'', m_cik = Some ''1084380'',
       m_company_name = Some ''TIAA-CREF FUNDS'', m_file_size_mb = Some 3 \<rparr>"

section \<open>Results\<close>


text \<open>
  C1. With the default thresholds 10/50/100 and a size of at least 0, both tier routers
  (the one of the settings object and the one of the processor) return standard up to
  10, limited above 10 and up to 50, minimal above 50 and up to 100, and dead\_letter
  above 100; the sizes 10, 50 and 100 themselves go to standard, limited and minimal.
\<close>

theorem tier_router_thresholds:
  "0 \<le> size_mb \<Longrightarrow>
     determine_processing_tier size_mb =
       (if size_mb \<le> 10 then ''standard''
        else if size_mb \<le> 50 then ''limited''
        else if size_mb \<le> 100 then ''minimal''
        else ''dead_letter'')
   \<and> Settings_determine_processing_tier settings size_mb = determine_processing_tier size_mb
   \<and> determine_processing_tier 10 = ''standard''
   \<and> determine_processing_tier 50 = ''limited''
   \<and> determine_processing_tier 100 = ''minimal''"
  by (simp add: determine_processing_tier_def Settings_determine_processing_tier_def settings_def)

theorem tier_router_thresholds_witness:
  "(0::real) \<le> 50 \<and> determine_processing_tier 50 = ''limited''
   \<and> Settings_determine_processing_tier settings 50 = ''limited''"
  using tier_router_thresholds [of 50] by simp

text \<open>
  C2. The retry-eligibility function answers ineligible exactly when attempts are at
  least 5, or the size exceeds 100 MB, or the size exceeds 50 MB with at least 2
  attempts, or a memory failure comes with a size above 25 MB, or a parsing failure with
  at least 3 attempts; in every other case it answers eligible.
\<close>

theorem retry_eligibility_iff:
  "calculate_retry_eligibility attempts size_mb failure_type = False
   \<longleftrightarrow> (attempts \<ge> 5 \<or> size_mb > 100 \<or> (size_mb > 50 \<and> attempts \<ge> 2)
        \<or> (failure_type = ''memory'' \<and> size_mb > 25)
        \<or> (failure_type = ''parsing'' \<and> attempts \<ge> 3))"
  by (simp add: calculate_retry_eligibility_def)

text \<open>
  C9. The priority is the base 1, plus 2 for a size below 5 MB or else plus 1 for a size
  below 15 MB, plus 1 for a network or temporary failure, minus 1 for a memory or timeout
  failure, clamped to 1..5; the result always lies between 1 and 5.
\<close>

theorem priority_matches_spec:
  "calculate_priority size_mb failure_type = priority_spec size_mb failure_type
   \<and> 1 \<le> calculate_priority size_mb failure_type
   \<and> calculate_priority size_mb failure_type \<le> 5"
  by (simp add: calculate_priority_def priority_spec_def size_bonus_def
      failure_adjustment_def Let_def)

section \<open>Auxiliary facts\<close>

text \<open>
  The backoff hours for every attempt count from 1 on: the closed form, monotone and at
  most 192.
\<close>

lemma backoff_hours_nat:
  "1 \<le> n \<Longrightarrow> calculate_backoff_hours n = min (24 * 2 ^ nat (n - 1)) 192"
  by (simp add: calculate_backoff_hours_def power_int_def)

lemma backoff_hours_mono:
  "1 \<le> n \<Longrightarrow> calculate_backoff_hours n \<le> calculate_backoff_hours (n + 1)"
proof -
  assume n: "1 \<le> n"
  have "(2::real) ^ nat (n - 1) \<le> 2 ^ nat n"
    by (rule power_increasing) (use n in auto)
  then have "24 * (2::real) ^ nat (n - 1) \<le> 24 * 2 ^ nat n"
    by simp
  then have "min (24 * (2::real) ^ nat (n - 1)) 192 \<le> min (24 * 2 ^ nat n) 192"
    by (rule min.mono) simp
  then show ?thesis using n
    by (simp add: calculate_backoff_hours_def power_int_def)
qed

lemma backoff_hours_le: "calculate_backoff_hours n \<le> 192"
  by (simp add: calculate_backoff_hours_def)

text \<open>
  No class of storage/models.py has the names that the managers use: the lookup of
  \<^verbatim>\<open>Filing.id\<close> finds nothing, and the constructors are called with keywords that the
  classes reject.
\<close>

lemma Filing_has_no_id: "Filing_int_attribute ''id'' = None"
  by (simp add: Filing_int_attribute_def)

lemma new_entry_raises:
  "new_entry env filing_id error file_size_mb failure_type original_tier
     = Inl (TypeError ''retry_after_hours is an invalid keyword argument for DeadLetterQueue'')"
  by (simp add: new_entry_def check_keywords_def DeadLetterQueue_attributes_def then_exc_def
      Let_def)

lemma add_filing_try_raises:
  "\<exists>e. add_filing_try env filing_id error file_size_mb failure_type original_tier
          error_details w = Inl e"
  by (simp add: add_filing_try_def new_entry_raises Filing_has_no_id then_exc_def
      split: option.splits)

lemma add_filing_never_commits:
  "add_filing env db filing_id error file_size_mb failure_type original_tier error_details
     = (False, db)"
proof -
  obtain e where "add_filing_try env filing_id error file_size_mb failure_type original_tier
      error_details db = Inl e"
    using add_filing_try_raises by blast
  then show ?thesis
    by (simp add: add_filing_def get_session_def rollback_def close_def Let_def)
qed

lemma mark_as_processed_commits_nothing:
  "mark_as_processed env db fid success = (True, db)"
  by (simp add: mark_as_processed_def get_session_def close_def Let_def)

lemma save_processing_result_raises:
  "save_processing_result env db filing_id result tier
     = (Inl (AttributeError ''type object Filing has no attribute id''), db)"
  by (simp add: save_processing_result_def Filing_has_no_id get_session_def close_def Let_def)

lemma update_filing_processing_status_raises:
  "update_filing_processing_status env db filing_id tier status
     = (Inl (AttributeError ''type object Filing has no attribute id''), db)"
  by (simp add: update_filing_processing_status_def Filing_has_no_id get_session_def close_def
      Let_def)

lemma create_or_update_filing_raises:
  "\<exists>e db'. create_or_update_filing env db meta = (Inl e, db')"
  by (simp add: create_or_update_filing_def Filing_has_no_id check_keywords_def
      Filing_attributes_def Let_def split: option.splits)

lemma process_with_tier_attribute_error:
  "tier \<in> set extractors \<Longrightarrow>
   process_with_tier self tier html_content
     = Inl (AttributeError ''TimeoutManager object has no attribute timeout_context'')"
  by (simp add: process_with_tier_def TimeoutManager_attributes_def Let_def)

text \<open>
  So \<^const>\<open>process_filing\<close> never comes to choose a tier: for a new filing the
  constructor of \<^verbatim>\<open>Filing\<close> raises, the handler of general errors takes over with the
  tier unknown, and its call of \<^const>\<open>add_filing\<close> adds nothing to the queue.
\<close>

lemma process_filing_new_filing:
  "process_filing example_processor empty_database example_meta html_content
     = (Inr (empty_result\<lparr> r_success := Some False,
              r_error := Some ''filing_date is an invalid keyword argument for Filing'',
              r_error_type := Some ''processing'', r_processing_tier := Some ''unknown'',
              r_processing_duration := Some 0, r_filing_id := None \<rparr>),
        empty_database)"
proof -
  have env: "tp_env example_processor = example_env"
    and elapsed: "tp_elapsed example_processor = 0"
    by (simp_all add: example_processor_def)
  have created: "create_or_update_filing example_env empty_database example_meta
      = (Inl (TypeError ''filing_date is an invalid keyword argument for Filing''),
         empty_database)"
    by (simp add: create_or_update_filing_def example_meta_def empty_database_def
        check_keywords_def Filing_attributes_def get_session_def close_def Let_def)
  show ?thesis
    by (simp add: process_filing_def env elapsed created handle_exception_def
        handle_general_error_def add_filing_never_commits Let_def)
qed

section \<open>Results on the dead-letter queue manager\<close>

text \<open>
  C3 (the code departs from the claim). The backoff hours are as claimed, 24, 48, 96,
  192 and 192 for the attempts 1 to 5, and for the second attempt of a row
  \<^const>\<open>add_filing\<close> computes the current time plus 48 hours on the session's object.
  But the call then fails at the lookup of the filing and is rolled back: it returns
  \<^verbatim>\<open>False\<close> and the row keeps the \<open>next_retry\<close> it had.
\<close>

theorem add_filing_backoff_not_written:
  "calculate_backoff_hours 1 = 24 \<and> calculate_backoff_hours 2 = 48
   \<and> calculate_backoff_hours 3 = 96 \<and> calculate_backoff_hours 4 = 192
   \<and> calculate_backoff_hours 5 = 192
   \<and> map dlq_next_retry (dead_letter_queue example_db) = [Some 87400]
   \<and> dlq_next_retry (update_existing example_env ''Timeout'' 2 ''timeout'' example_row)
     = Some (utcnow example_env + timedelta_hours 48)
   \<and> add_filing example_env example_db (Some 1) ''Timeout'' 2 ''timeout'' (Some ''standard'') None
     = (False, example_db)"
  by (simp add: add_filing_never_commits calculate_backoff_hours_def power_int_def
      example_db_def example_db_no_queue_def example_row_def update_existing_def Let_def
      calculate_retry_eligibility_def)

text \<open>
  C6 (the code departs from the claim). For a filing that has a row in the queue,
  \<^const>\<open>add_filing\<close> raises the attempt count on the session's object, then fails at the
  lookup of the filing and is rolled back: it returns \<^verbatim>\<open>False\<close>, and the row is left
  with the attempt count 1, nothing recomputed.
\<close>

theorem add_filing_existing_row_unchanged:
  "map dlq_attempt_count (dead_letter_queue example_db) = [1]
   \<and> dlq_attempt_count (update_existing example_env ''out of memory'' 60 ''memory'' example_row)
     = 2
   \<and> add_filing example_env example_db (Some 1) ''out of memory'' 60 ''memory''
       (Some ''minimal'') None
     = (False, example_db)
   \<and> map dlq_attempt_count
       (dead_letter_queue (snd (add_filing example_env example_db (Some 1) ''out of memory''
          60 ''memory'' (Some ''minimal'') None))) = [1]"
  by (simp add: add_filing_never_commits example_db_def example_db_no_queue_def
      example_row_def update_existing_def Let_def)


text \<open>
  C7 (the code departs from the claim). \<^const>\<open>mark_as_processed\<close> deletes the row
  (success) or raises its attempt count (failure) in the session only: the session is
  closed without a commit, so the database keeps the row with its old attempt count.
\<close>

theorem mark_as_processed_leaves_row:
  "map dlq_attempt_count (dead_letter_queue example_db) = [1]
   \<and> dead_letter_queue (mark_as_processed_body example_env (Some 1) True example_db) = []
   \<and> map dlq_attempt_count
       (dead_letter_queue (mark_as_processed_body example_env (Some 1) False example_db)) = [2]
   \<and> mark_as_processed example_env example_db (Some 1) True = (True, example_db)
   \<and> mark_as_processed example_env example_db (Some 1) False = (True, example_db)"
  by (simp add: mark_as_processed_commits_nothing example_db_def example_db_no_queue_def
      example_row_def mark_as_processed_body_def failed_retry_def Let_def)

section \<open>Results on saving\<close>

text \<open>
  C4 (the code departs from the claim). For a failed result
  \<^const>\<open>save_processing_result\<close> writes no child row, but it does not mark the filing as
  failed either: its first statement reads \<^verbatim>\<open>Filing.id\<close> and raises
  \<^verbatim>\<open>AttributeError\<close>, which leaves the function, and the filing stays in processing.
\<close>

theorem save_failed_result_raises:
  "r_success example_failed_result = Some False
   \<and> map f_processing_status (filings example_db_no_queue) = [''processing'']
   \<and> save_processing_result example_env example_db_no_queue 1 example_failed_result
       ''standard''
     = (Inl (AttributeError ''type object Filing has no attribute id''), example_db_no_queue)"
  by (simp add: save_processing_result_raises example_failed_result_def empty_result_def
      example_db_no_queue_def example_filing_def)

section \<open>Results on the integrated parser\<close>







section \<open>Results on the tiered processor\<close>

text \<open>
  C5 (the code departs from the claim). The timeouts of the tiers are 300, 120 and 60
  seconds, but \<^const>\<open>process_with_tier\<close> raises \<^verbatim>\<open>AttributeError\<close> for each of the
  three tiers before the parse phase starts, since \<^verbatim>\<open>TimeoutManager\<close> has no
  \<^verbatim>\<open>timeout_context\<close>: no parse runs under a timeout and no timeout error is raised.
\<close>

theorem process_with_tier_never_runs_parse:
  "get_timeout_for_tier settings ''standard'' = 300
   \<and> get_timeout_for_tier settings ''limited'' = 120
   \<and> get_timeout_for_tier settings ''minimal'' = 60
   \<and> process_with_tier self ''standard'' html_content
       = Inl (AttributeError ''TimeoutManager object has no attribute timeout_context'')
   \<and> process_with_tier self ''limited'' html_content
       = Inl (AttributeError ''TimeoutManager object has no attribute timeout_context'')
   \<and> process_with_tier self ''minimal'' html_content
       = Inl (AttributeError ''TimeoutManager object has no attribute timeout_context'')"
proof -
  have tiers: "''standard'' \<in> set extractors" "''limited'' \<in> set extractors"
      "''minimal'' \<in> set extractors"
    by (simp_all add: extractors_def)
  show ?thesis
    by (simp add: process_with_tier_attribute_error [OF tiers(1)]
        process_with_tier_attribute_error [OF tiers(2)]
        process_with_tier_attribute_error [OF tiers(3)]
        get_timeout_for_tier_def settings_def)
qed

end
